theory Spec2Isabelle
  imports Complex_Main
begin

section \<open>JavaScript values\<close>

text \<open>
  The pages under \<^verbatim>\<open>src/pages\<close> handle values of type \<^verbatim>\<open>any\<close>: the
  results of \<^verbatim>\<open>JSON.parse\<close> and \<^verbatim>\<open>response.json()\<close>, and \<^verbatim>\<open>undefined\<close> for
  what is missing. They are modelled by one datatype.

  Numbers: a finite number is represented by the rational it denotes (\<open>Num q\<close>); rounding
  to binary64 inside the finite range and the sign of zero are not represented. The three
  non-finite numbers are constructors of their own.

  Strings are lists of 8-bit characters (UTF-8 bytes where the source has a non-ASCII
  character). Objects are the lists of their own properties, in the order in which
  \<^verbatim>\<open>Object.entries\<close> enumerates them; an object has each key once, and a read takes
  the first entry of a key.
\<close>

datatype jsnum = NaN | PosInf | NegInf | Num rat

datatype jsval =
    JUndefined
  | JNull
  | JBool bool
  | JNum jsnum
  | JStr string
  | JArr "jsval list"
  | JObj "(string \<times> jsval) list"

datatype js_error = TypeError | SyntaxError

text \<open>Truthiness (\<^verbatim>\<open>if (v)\<close>, \<^verbatim>\<open>!v\<close>, \<^verbatim>\<open>a || b\<close>) and nullishness (\<^verbatim>\<open>a ?? b\<close>, \<^verbatim>\<open>a?.k\<close>).\<close>

fun truthy :: "jsval \<Rightarrow> bool" where
  "truthy JUndefined = False"
| "truthy JNull = False"
| "truthy (JBool b) = b"
| "truthy (JNum n) = (n \<noteq> NaN \<and> n \<noteq> Num 0)"
| "truthy (JStr s) = (s \<noteq> [])"
| "truthy (JArr xs) = True"
| "truthy (JObj kvs) = True"

fun nullish :: "jsval \<Rightarrow> bool" where
  "nullish JUndefined = True"
| "nullish JNull = True"
| "nullish v = False"

definition logicalOr :: "jsval \<Rightarrow> jsval \<Rightarrow> jsval" where
  "logicalOr a b = (if truthy a then a else b)"

definition nullishOr :: "jsval \<Rightarrow> jsval \<Rightarrow> jsval" where
  "nullishOr a b = (if nullish a then b else a)"

text \<open>Sequencing of steps that may throw: the first error ends the evaluation.\<close>

definition bindE :: "'e + 'a \<Rightarrow> ('a \<Rightarrow> 'e + 'b) \<Rightarrow> 'e + 'b" where
  "bindE m f = (case m of Inl e \<Rightarrow> Inl e | Inr x \<Rightarrow> f x)"

text \<open>Decimal numerals of array indices, as \<^verbatim>\<open>String(i)\<close> writes them.\<close>

definition digitChar :: "nat \<Rightarrow> char" where
  "digitChar d = char_of (48 + d)"

fun showNat :: "nat \<Rightarrow> string" where
  "showNat n = (if n < 10 then [digitChar n] else showNat (n div 10) @ [digitChar (n mod 10)])"

declare showNat.simps [simp del]

text \<open>
  \<open>getProp v k\<close> is the read \<^verbatim>\<open>v[k]\<close> (or \<^verbatim>\<open>v.k\<close>) of an own property of a value that
  is neither \<^verbatim>\<open>null\<close> nor \<^verbatim>\<open>undefined\<close>: a member of an object, an element or the length
  of an array, a character or the length of a string; every other read is
  \<^verbatim>\<open>undefined\<close>. Members inherited from the prototypes (the methods of
  \<^verbatim>\<open>Object.prototype\<close> and so on) are functions and have no representation here. The
  keys given to \<open>getProp\<close> are fixed names of the source, none of them inherited, and
  the aliases of \<^verbatim>\<open>getCategoryItems\<close>, where an inherited member is never a non-empty
  array. The two reads whose key is the stored risk preference are modelled on their own
  below.
\<close>

fun getProp :: "jsval \<Rightarrow> string \<Rightarrow> jsval" where
  "getProp (JObj kvs) k = (case map_of kvs k of Some v \<Rightarrow> v | None \<Rightarrow> JUndefined)"
| "getProp (JArr xs) k =
     (if k = ''length'' then JNum (Num (of_nat (length xs)))
      else case List.find (\<lambda>i. showNat i = k) [0..<length xs] of
             Some i \<Rightarrow> xs ! i
           | None \<Rightarrow> JUndefined)"
| "getProp (JStr s) k =
     (if k = ''length'' then JNum (Num (of_nat (length s)))
      else case List.find (\<lambda>i. showNat i = k) [0..<length s] of
             Some i \<Rightarrow> JStr [s ! i]
           | None \<Rightarrow> JUndefined)"
| "getProp v k = JUndefined"

text \<open>\<^verbatim>\<open>v.k\<close> throws a TypeError on \<^verbatim>\<open>null\<close> and \<^verbatim>\<open>undefined\<close>; \<^verbatim>\<open>v?.k\<close> is \<^verbatim>\<open>undefined\<close> there.\<close>

definition member :: "jsval \<Rightarrow> string \<Rightarrow> js_error + jsval" where
  "member v k = (if nullish v then Inl TypeError else Inr (getProp v k))"

definition optProp :: "jsval \<Rightarrow> string \<Rightarrow> jsval" where
  "optProp v k = (if nullish v then JUndefined else getProp v k)"

text \<open>\<^verbatim>\<open>Array.prototype.join\<close> on strings.\<close>

fun joinWith :: "string \<Rightarrow> string list \<Rightarrow> string" where
  "joinWith sep [] = []"
| "joinWith sep [p] = p"
| "joinWith sep (p # q # ps) = p @ sep @ joinWith sep (q # ps)"

text \<open>
  Conversion to a primitive. A parsed object inherits \<^verbatim>\<open>toString\<close> and \<^verbatim>\<open>valueOf\<close> from
  \<^verbatim>\<open>Object.prototype\<close>; a key \<^verbatim>\<open>toString\<close> of its own hides the inherited method by a
  value that cannot be called, the inherited \<^verbatim>\<open>valueOf\<close> returns the object itself, and
  the conversion throws a TypeError. An array converts through \<^verbatim>\<open>join\<close>, which converts
  every element but \<^verbatim>\<open>null\<close> and \<^verbatim>\<open>undefined\<close>.
\<close>

fun toPrimitiveFails :: "jsval \<Rightarrow> bool" where
  "toPrimitiveFails (JObj kvs) = (map_of kvs ''toString'' \<noteq> None)"
| "toPrimitiveFails (JArr xs) = list_ex toPrimitiveFails xs"
| "toPrimitiveFails v = False"

text \<open>
  \<open>toStr N v\<close> is the string a template literal \<^verbatim>\<open>`${v}`\<close> inserts, or the error the
  conversion throws. \<open>N\<close> is the runtime's \<^verbatim>\<open>Number.prototype.toString\<close>, a parameter:
  it prints the shortest decimal that reads back as the same binary64, which the rationals
  do not determine.
\<close>

fun toStr :: "(jsnum \<Rightarrow> string) \<Rightarrow> jsval \<Rightarrow> js_error + string"
  and elementStrings :: "(jsnum \<Rightarrow> string) \<Rightarrow> jsval list \<Rightarrow> js_error + string list"
where
  "toStr N JUndefined = Inr ''undefined''"
| "toStr N JNull = Inr ''null''"
| "toStr N (JBool b) = Inr (if b then ''true'' else ''false'')"
| "toStr N (JNum n) = Inr (N n)"
| "toStr N (JStr s) = Inr s"
| "toStr N (JArr xs) =
     (case elementStrings N xs of
        Inl e \<Rightarrow> Inl e
      | Inr ps \<Rightarrow> Inr (joinWith '','' ps))"
| "toStr N (JObj kvs) =
     (if map_of kvs ''toString'' \<noteq> None then Inl TypeError else Inr ''[object Object]'')"
| "elementStrings N [] = Inr []"
| "elementStrings N (x # xs) =
     (case (if nullish x then Inr [] else toStr N x) of
        Inl e \<Rightarrow> Inl e
      | Inr p \<Rightarrow>
          (case elementStrings N xs of
             Inl e \<Rightarrow> Inl e
           | Inr ps \<Rightarrow> Inr (p # ps)))"

text \<open>
  The names every object inherits from \<^verbatim>\<open>Object.prototype\<close>. A read \<^verbatim>\<open>table[k]\<close> of
  an object literal finds them when \<open>k\<close> is not a key of the literal: a function for each
  name of the list, and \<^verbatim>\<open>Object.prototype\<close> itself for \<^verbatim>\<open>__proto__\<close>.
\<close>

definition objectPrototypeFunctions :: "string list" where
  "objectPrototypeFunctions =
     [''constructor'', ''hasOwnProperty'', ''isPrototypeOf'', ''propertyIsEnumerable'',
      ''toLocaleString'', ''toString'', ''valueOf'', ''__defineGetter__'',
      ''__defineSetter__'', ''__lookupGetter__'', ''__lookupSetter__'']"

definition inheritedName :: "string \<Rightarrow> bool" where
  "inheritedName k \<longleftrightarrow> k = ''__proto__'' \<or> k \<in> set objectPrototypeFunctions"

section \<open>Full mode: categories and their aliases (RecommendationPage.tsx)\<close>

record category_config =
  label :: string
  keys :: "string list"

definition categoryConfigs :: "category_config list" where
  "categoryConfigs =
     [\<lparr>label = ''Equity Funds'', keys = [''equity'', ''equity_funds'']\<rparr>,
      \<lparr>label = ''Debt Funds'', keys = [''debt'', ''debt_funds'']\<rparr>,
      \<lparr>label = ''Hybrid Funds'', keys = [''hybrid'', ''hybrid_funds'']\<rparr>,
      \<lparr>label = ''Gold ETFs'', keys = [''gold'', ''gold_etf'', ''gold_etfs'']\<rparr>,
      \<lparr>label = ''Stocks'', keys = [''stocks'', ''equity_stocks'']\<rparr>]"

text \<open>
  The loop of \<^verbatim>\<open>getCategoryItems\<close>: the first key whose value is an array
  (\<^verbatim>\<open>Array.isArray\<close>) of non-zero length returns that array.
\<close>

fun scanKeys :: "jsval \<Rightarrow> string list \<Rightarrow> jsval list" where
  "scanKeys recommendationResults [] = []"
| "scanKeys recommendationResults (key # rest) =
     (case getProp recommendationResults key of
        JArr xs \<Rightarrow> if xs \<noteq> [] then xs else scanKeys recommendationResults rest
      | _ \<Rightarrow> scanKeys recommendationResults rest)"

definition getCategoryItems :: "jsval \<Rightarrow> string list \<Rightarrow> jsval list" where
  "getCategoryItems recommendationResults ks =
     (if \<not> truthy recommendationResults then [] else scanKeys recommendationResults ks)"

record category_section = category_config +
  items :: "jsval list"

definition recommendationSections :: "jsval \<Rightarrow> category_section list" where
  "recommendationSections recommendationResults =
     map (\<lambda>config. \<lparr>label = label config, keys = keys config,
                     items = getCategoryItems recommendationResults (keys config)\<rparr>)
         categoryConfigs"

text \<open>The items of the section with a given label.\<close>

definition sectionItems :: "jsval \<Rightarrow> string \<Rightarrow> jsval list option" where
  "sectionItems recommendationResults l =
     map_option items (List.find (\<lambda>s. label s = l) (recommendationSections recommendationResults))"

text \<open>In the specification's words: the first alias whose value is a non-empty array.\<close>

definition nonEmptyArray :: "jsval \<Rightarrow> bool" where
  "nonEmptyArray v = (case v of JArr xs \<Rightarrow> xs \<noteq> [] | _ \<Rightarrow> False)"

definition arrayItems :: "jsval \<Rightarrow> jsval list" where
  "arrayItems v = (case v of JArr xs \<Rightarrow> xs | _ \<Rightarrow> [])"

definition firstNonEmptyAlias :: "jsval \<Rightarrow> string list \<Rightarrow> jsval list" where
  "firstNonEmptyAlias response aliases =
     (case List.find (\<lambda>k. nonEmptyArray (getProp response k)) aliases of
        Some k \<Rightarrow> arrayItems (getProp response k)
      | None \<Rightarrow> [])"

section \<open>Conversion to numbers\<close>

text \<open>
  \<^verbatim>\<open>Number(v)\<close> on a string follows the grammar \<^verbatim>\<open>StringNumericLiteral\<close> of the language:
  white space is trimmed, the empty rest is 0, then an optional sign and \<^verbatim>\<open>Infinity\<close> or
  decimal digits with an optional fraction and exponent, or an unsigned binary, octal or
  hexadecimal integer; everything else is \<^verbatim>\<open>NaN\<close>. A literal at or beyond the rounding
  boundary of binary64 becomes an infinity.

  The white space of the grammar is TAB, LF, VT, FF, CR, SP, then U+00A0 (two bytes in
  UTF-8), and U+1680, U+2000 to U+200A, U+2028, U+2029, U+202F, U+205F, U+3000 and U+FEFF
  (three bytes each).
\<close>

definition asciiWhiteSpace :: "char \<Rightarrow> bool" where
  "asciiWhiteSpace c \<longleftrightarrow>
     c \<in> set [CHR 0x09, CHR 0x0A, CHR 0x0B, CHR 0x0C, CHR 0x0D, CHR 0x20]"

definition whiteSpace2 :: "char \<Rightarrow> char \<Rightarrow> bool" where
  "whiteSpace2 a b \<longleftrightarrow> a = CHR 0xC2 \<and> b = CHR 0xA0"

definition whiteSpace3 :: "char \<Rightarrow> char \<Rightarrow> char \<Rightarrow> bool" where
  "whiteSpace3 a b c \<longleftrightarrow>
     (a = CHR 0xE1 \<and> b = CHR 0x9A \<and> c = CHR 0x80)
     \<or> (a = CHR 0xE2 \<and> b = CHR 0x80
         \<and> (c \<in> set [CHR 0x80, CHR 0x81, CHR 0x82, CHR 0x83, CHR 0x84, CHR 0x85, CHR 0x86,
                       CHR 0x87, CHR 0x88, CHR 0x89, CHR 0x8A, CHR 0xA8, CHR 0xA9, CHR 0xAF]))
     \<or> (a = CHR 0xE2 \<and> b = CHR 0x81 \<and> c = CHR 0x9F)
     \<or> (a = CHR 0xE3 \<and> b = CHR 0x80 \<and> c = CHR 0x80)
     \<or> (a = CHR 0xEF \<and> b = CHR 0xBB \<and> c = CHR 0xBF)"

text \<open>
  White space is dropped from the front of a string; \<open>back\<close> says that the string is
  read from its end, so that the bytes of a character come in reverse.
\<close>

fun dropWhiteSpace :: "bool \<Rightarrow> string \<Rightarrow> string" where
  "dropWhiteSpace back (a # b # c # s) =
     (if asciiWhiteSpace a then dropWhiteSpace back (b # c # s)
      else if (if back then whiteSpace2 b a else whiteSpace2 a b) then dropWhiteSpace back (c # s)
      else if (if back then whiteSpace3 c b a else whiteSpace3 a b c) then dropWhiteSpace back s
      else a # b # c # s)"
| "dropWhiteSpace back [a, b] =
     (if asciiWhiteSpace a then dropWhiteSpace back [b]
      else if (if back then whiteSpace2 b a else whiteSpace2 a b) then []
      else [a, b])"
| "dropWhiteSpace back [a] = (if asciiWhiteSpace a then [] else [a])"
| "dropWhiteSpace back [] = []"

definition trimString :: "string \<Rightarrow> string" where
  "trimString s = rev (dropWhiteSpace True (rev (dropWhiteSpace False s)))"

definition isDecimalDigit :: "char \<Rightarrow> bool" where
  "isDecimalDigit c \<longleftrightarrow> 48 \<le> (of_char c :: nat) \<and> (of_char c :: nat) \<le> 57"

definition digitOf :: "char \<Rightarrow> nat option" where
  "digitOf c =
     (let n = (of_char c :: nat) in
      if 48 \<le> n \<and> n \<le> 57 then Some (n - 48)
      else if 97 \<le> n \<and> n \<le> 102 then Some (n - 87)
      else if 65 \<le> n \<and> n \<le> 70 then Some (n - 55)
      else None)"

definition digitsIn :: "nat \<Rightarrow> string \<Rightarrow> bool" where
  "digitsIn base s \<longleftrightarrow>
     s \<noteq> [] \<and> list_all (\<lambda>c. case digitOf c of Some d \<Rightarrow> d < base | None \<Rightarrow> False) s"

definition radixValue :: "nat \<Rightarrow> string \<Rightarrow> nat" where
  "radixValue base s =
     foldl (\<lambda>acc c. acc * base + (case digitOf c of Some d \<Rightarrow> d | None \<Rightarrow> 0)) 0 s"

definition numberValue :: "rat \<Rightarrow> jsnum" where
  "numberValue q =
     (if 2 ^ 1024 - 2 ^ 970 \<le> \<bar>q\<bar> then (if 0 < q then PosInf else NegInf) else Num q)"

definition negateNum :: "jsnum \<Rightarrow> jsnum" where
  "negateNum n = (case n of NaN \<Rightarrow> NaN | PosInf \<Rightarrow> NegInf | NegInf \<Rightarrow> PosInf | Num q \<Rightarrow> Num (- q))"

definition exponentPart :: "string \<Rightarrow> int option" where
  "exponentPart s =
     (case s of
        [] \<Rightarrow> Some 0
      | c # r \<Rightarrow>
          if c = CHR ''e'' \<or> c = CHR ''E'' then
            (case r of
               [] \<Rightarrow> None
             | d # t \<Rightarrow>
                 if d = CHR ''+'' then
                   (if digitsIn 10 t then Some (int (radixValue 10 t)) else None)
                 else if d = CHR ''-'' then
                   (if digitsIn 10 t then Some (- int (radixValue 10 t)) else None)
                 else if digitsIn 10 r then Some (int (radixValue 10 r))
                 else None)
          else None)"

definition scale10 :: "rat \<Rightarrow> int \<Rightarrow> rat" where
  "scale10 q e = (if 0 \<le> e then q * 10 ^ nat e else q / 10 ^ nat (- e))"

definition strUnsignedDecimalLiteral :: "string \<Rightarrow> jsnum" where
  "strUnsignedDecimalLiteral s =
     (if s = ''Infinity'' then PosInf
      else
        let ip = takeWhile isDecimalDigit s;
            r1 = dropWhile isDecimalDigit s;
            fp = (case r1 of [] \<Rightarrow> []
                  | c # t \<Rightarrow> if c = CHR ''.'' then takeWhile isDecimalDigit t else []);
            r2 = (case r1 of [] \<Rightarrow> []
                  | c # t \<Rightarrow> if c = CHR ''.'' then dropWhile isDecimalDigit t else r1)
        in if ip = [] \<and> fp = [] then NaN
           else case exponentPart r2 of
                  None \<Rightarrow> NaN
                | Some e \<Rightarrow>
                    numberValue
                      (scale10 (of_nat (radixValue 10 ip)
                                + of_nat (radixValue 10 fp) / 10 ^ length fp) e))"

definition nonDecimalIntegerLiteral :: "string \<Rightarrow> jsnum option" where
  "nonDecimalIntegerLiteral s =
     (case s of
        z # x # ds \<Rightarrow>
          if z \<noteq> CHR ''0'' then None
          else if x = CHR ''x'' \<or> x = CHR ''X'' then
            Some (if digitsIn 16 ds then numberValue (of_nat (radixValue 16 ds)) else NaN)
          else if x = CHR ''o'' \<or> x = CHR ''O'' then
            Some (if digitsIn 8 ds then numberValue (of_nat (radixValue 8 ds)) else NaN)
          else if x = CHR ''b'' \<or> x = CHR ''B'' then
            Some (if digitsIn 2 ds then numberValue (of_nat (radixValue 2 ds)) else NaN)
          else None
      | _ \<Rightarrow> None)"

definition strNumericLiteral :: "string \<Rightarrow> jsnum" where
  "strNumericLiteral s =
     (case s of
        [] \<Rightarrow> Num 0
      | c # r \<Rightarrow>
          if c = CHR ''+'' then strUnsignedDecimalLiteral r
          else if c = CHR ''-'' then negateNum (strUnsignedDecimalLiteral r)
          else (case nonDecimalIntegerLiteral s of
                  Some n \<Rightarrow> n
                | None \<Rightarrow> strUnsignedDecimalLiteral s))"

definition StringToNumber :: "string \<Rightarrow> jsnum" where
  "StringToNumber s = strNumericLiteral (trimString s)"

text \<open>
  \<^verbatim>\<open>Number(v)\<close> on the other values. An object or an array is converted to a primitive
  first, which may throw. An array converts through its string: the empty array is
  \<^verbatim>\<open>''\<close>, a singleton is the string of its element (\<^verbatim>\<open>''\<close> for \<^verbatim>\<open>null\<close> and
  \<^verbatim>\<open>undefined\<close>, and a number reads back as itself), a longer one has a comma in it; an
  object converts through \<^verbatim>\<open>'[object Object]'\<close>.
\<close>

fun toNumber :: "jsval \<Rightarrow> js_error + jsnum" where
  "toNumber JUndefined = Inr NaN"
| "toNumber JNull = Inr (Num 0)"
| "toNumber (JBool b) = Inr (if b then Num 1 else Num 0)"
| "toNumber (JNum n) = Inr n"
| "toNumber (JStr s) = Inr (StringToNumber s)"
| "toNumber (JArr []) = Inr (Num 0)"
| "toNumber (JArr [x]) =
     (if toPrimitiveFails x then Inl TypeError
      else (case x of
              JUndefined \<Rightarrow> Inr (Num 0)
            | JNull \<Rightarrow> Inr (Num 0)
            | JBool b \<Rightarrow> Inr NaN
            | JObj kvs \<Rightarrow> Inr NaN
            | _ \<Rightarrow> toNumber x))"
| "toNumber (JArr (x # y # zs)) =
     (if list_ex toPrimitiveFails (x # y # zs) then Inl TypeError else Inr NaN)"
| "toNumber (JObj kvs) =
     (if map_of kvs ''toString'' \<noteq> None then Inl TypeError else Inr NaN)"

section \<open>The request (RecommendationPage.tsx)\<close>

definition parseOptionalNumber :: "jsval \<Rightarrow> js_error + jsval" where
  "parseOptionalNumber v =
     (if v = JUndefined \<or> v = JNull \<or> v = JStr [] then Inr JUndefined
      else bindE (toNumber v)
             (\<lambda>parsed. Inr (if parsed = NaN then JUndefined else JNum parsed)))"

datatype report_type = Full | Single

fun reportTypeString :: "report_type \<Rightarrow> string" where
  "reportTypeString Full = ''full''"
| "reportTypeString Single = ''single''"

text \<open>
  \<^verbatim>\<open>ReportPreference\<close>. The declared type of \<^verbatim>\<open>investmentType\<close> is \<^verbatim>\<open>string\<close>; what
  the load from storage puts there is any truthy parsed value or \<^verbatim>\<open>''\<close>, so the field
  is a value.
\<close>

record ReportPreference =
  reportType :: report_type
  investmentType :: jsval

text \<open>
  The object literal \<^verbatim>\<open>payload\<close> of \<^verbatim>\<open>fetchRecommendations\<close>, as the list of its
  properties, built in the source's order; \<^verbatim>\<open>Number\<close> and \<^verbatim>\<open>parseOptionalNumber\<close> may
  throw. \<^verbatim>\<open>preference?.reportType ?? 'full'\<close> is the preference's \<^verbatim>\<open>reportType\<close>, which
  is never nullish. The first read \<^verbatim>\<open>details.age\<close> throws when \<^verbatim>\<open>details\<close> is nullish.
\<close>

definition buildPayload :: "jsval \<Rightarrow> ReportPreference \<Rightarrow> js_error + (string \<times> jsval) list" where
  "buildPayload details preference =
     (if nullish details then Inl TypeError
      else
        bindE (toNumber (nullishOr (nullishOr (getProp details ''age'')
                                              (getProp details ''userAge'')) (JNum (Num 30))))
        (\<lambda>age.
        bindE (toNumber (nullishOr (nullishOr (getProp details ''investmentAmount'')
                                              (getProp details ''investment_amount''))
                                   (JNum (Num 0))))
        (\<lambda>investment_amount.
        bindE (parseOptionalNumber (nullishOr (getProp details ''monthlyIncome'')
                                              (getProp details ''monthly_income'')))
        (\<lambda>monthly_income.
        bindE (parseOptionalNumber (nullishOr (nullishOr (getProp details ''savings'')
                                                         (getProp details ''totalSavings''))
                                              (getProp details ''netWorth'')))
        (\<lambda>savings.
        bindE (parseOptionalNumber (nullishOr (getProp details ''monthlyExpenses'')
                                              (getProp details ''monthly_expenses'')))
        (\<lambda>monthly_expenses.
          Inr [(''age'', JNum age),
               (''investment_amount'', JNum investment_amount),
               (''risk_preference'',
                  nullishOr (nullishOr (getProp details ''riskPreference'')
                                       (getProp details ''risk_preference'')) (JStr ''Medium'')),
               (''monthly_income'', monthly_income),
               (''savings'', savings),
               (''time_horizon'',
                  nullishOr (getProp details ''timeHorizon'') (getProp details ''time_horizon'')),
               (''experience_level'',
                  nullishOr (getProp details ''experienceLevel'')
                            (getProp details ''experience_level'')),
               (''financial_goals'',
                  nullishOr (getProp details ''financialGoals'')
                            (getProp details ''financial_goals'')),
               (''monthly_expenses'', monthly_expenses),
               (''report_type'', JStr (reportTypeString (reportType preference))),
               (''investment_type'', logicalOr (investmentType preference) JUndefined)]))))))"

text \<open>
  \<^verbatim>\<open>JSON.stringify\<close>, as the value its text denotes: a property whose value is
  \<^verbatim>\<open>undefined\<close> is left out, an \<^verbatim>\<open>undefined\<close> array element and a non-finite number
  are written \<^verbatim>\<open>null\<close>.
\<close>

fun jsonValue :: "jsval \<Rightarrow> jsval" where
  "jsonValue (JNum n) = (case n of Num q \<Rightarrow> JNum n | _ \<Rightarrow> JNull)"
| "jsonValue (JArr xs) = JArr (map (\<lambda>x. if x = JUndefined then JNull else jsonValue x) xs)"
| "jsonValue (JObj kvs) =
     JObj (map (\<lambda>kv. (fst kv, jsonValue (snd kv))) (filter (\<lambda>kv. snd kv \<noteq> JUndefined) kvs))"
| "jsonValue v = v"

definition requestBody :: "(string \<times> jsval) list \<Rightarrow> jsval" where
  "requestBody payload = jsonValue (JObj payload)"

text \<open>Whether an object has a property of its own under a key.\<close>

definition hasKey :: "jsval \<Rightarrow> string \<Rightarrow> bool" where
  "hasKey v k = (case v of JObj kvs \<Rightarrow> map_of kvs k \<noteq> None | _ \<Rightarrow> False)"

section \<open>Fetching and the report mode (RecommendationPage.tsx)\<close>

text \<open>
  The state hooks of the page that \<^verbatim>\<open>fetchRecommendations\<close> writes.
  \<^verbatim>\<open>recommendationError\<close> is \<^verbatim>\<open>null\<close> or a message.
\<close>

record page_state =
  recommendationResults :: jsval
  recommendationLoading :: bool
  recommendationError :: "string option"
  reportMode :: report_type
  singleReportData :: jsval


text \<open>
  What the network does with one request: \<^verbatim>\<open>fetch\<close> rejects with an error (of the given
  message), or resolves with a response, of which the code reads \<^verbatim>\<open>ok\<close> and
  \<^verbatim>\<open>json()\<close>; the latter rejects with an error or resolves with the parsed body.
\<close>

datatype fetch_result = Rejected string | Response bool "string + jsval"

text \<open>The \<^verbatim>\<open>try\<close> block: \<open>Inl\<close> is the message of the error thrown.\<close>

definition tryBlock :: "fetch_result \<Rightarrow> page_state \<Rightarrow> string + page_state" where
  "tryBlock result st =
     (case result of
        Rejected message \<Rightarrow> Inl message
      | Response ok body \<Rightarrow>
          if \<not> ok then Inl ''Unable to fetch recommendations''
          else (case body of
                  Inl message \<Rightarrow> Inl message
                | Inr data \<Rightarrow>
                    Inr (st\<lparr>recommendationResults :=
                               nullishOr (optProp data ''recommendations'') data,
                             reportMode :=
                               (if optProp data ''report_type'' = JStr ''single''
                                then Single else Full),
                             singleReportData :=
                               nullishOr (optProp data ''single_report'') JNull\<rparr>)))"

definition catchBlock :: "string \<Rightarrow> page_state \<Rightarrow> page_state" where
  "catchBlock message st =
     st\<lparr>recommendationError :=
          Some (if message \<noteq> [] then message else ''Failed to load recommendations''),
        recommendationResults := JNull,
        reportMode := Full,
        singleReportData := JNull\<rparr>"

text \<open>\<^verbatim>\<open>try\<close>, \<^verbatim>\<open>catch\<close> and \<^verbatim>\<open>finally\<close>, from the state in which the request was sent.\<close>

definition fetchSettle :: "fetch_result \<Rightarrow> page_state \<Rightarrow> page_state" where
  "fetchSettle result st =
     (case tryBlock result st of
        Inl message \<Rightarrow> (catchBlock message st)\<lparr>recommendationLoading := False\<rparr>
      | Inr st' \<Rightarrow> st'\<lparr>recommendationLoading := False\<rparr>)"

text \<open>
  One call of \<^verbatim>\<open>fetchRecommendations\<close>: the state after its first two statements
  (\<open>atStart\<close>), the state when its promise has settled (\<open>atEnd\<close>), and the error the
  promise is rejected with, if any. \<open>backend\<close> maps the body sent to what comes back.
  The payload is built outside the \<^verbatim>\<open>try\<close>: when that throws, nothing is sent, the
  promise is rejected and no later statement runs.
\<close>

record fetch_run =
  atStart :: page_state
  atEnd :: page_state
  rejection :: "js_error option"

definition fetchRecommendations ::
  "jsval \<Rightarrow> ReportPreference \<Rightarrow> (jsval \<Rightarrow> fetch_result) \<Rightarrow> page_state \<Rightarrow> fetch_run"
where
  "fetchRecommendations details preference backend st =
     (let st1 = st\<lparr>recommendationLoading := True, recommendationError := None\<rparr> in
      case buildPayload details preference of
        Inl e \<Rightarrow> \<lparr>atStart = st1, atEnd = st1, rejection = Some e\<rparr>
      | Inr payload \<Rightarrow>
          \<lparr>atStart = st1,
           atEnd = fetchSettle (backend (requestBody payload)) st1,
           rejection = None\<rparr>)"

section \<open>What the page returns (RecommendationPage.tsx)\<close>











section \<open>The stored report preference (RecommendationPage.tsx, OptionalDetailsPage.tsx)\<close>

text \<open>
  \<^verbatim>\<open>JSON.parse(storedPreference)\<close> throws a SyntaxError or returns a value; its outcome
  is given with the stored text.
\<close>

datatype parse_outcome = ParseError | Parsed jsval

definition defaultPreference :: ReportPreference where
  "defaultPreference = \<lparr>reportType = Full, investmentType = JStr []\<rparr>"

text \<open>The body of the \<^verbatim>\<open>try\<close>, the same on both pages.\<close>

definition parsePreference :: "parse_outcome \<Rightarrow> js_error + ReportPreference" where
  "parsePreference json =
     (case json of
        ParseError \<Rightarrow> Inl SyntaxError
      | Parsed parsed \<Rightarrow>
          (case member parsed ''reportType'' of
             Inl e \<Rightarrow> Inl e
           | Inr rt \<Rightarrow>
               (case member parsed ''investmentType'' of
                  Inl e \<Rightarrow> Inl e
                | Inr it \<Rightarrow>
                    Inr \<lparr>reportType = (if rt = JStr ''single'' then Single else Full),
                         investmentType = logicalOr it (JStr [])\<rparr>)))"

text \<open>
  The effect of RecommendationPage: \<open>storedPreference\<close> is what
  \<^verbatim>\<open>localStorage.getItem\<close> returned (\<open>None\<close> for \<^verbatim>\<open>null\<close>). The result is the
  preference and \<^verbatim>\<open>preferenceLoaded\<close>.
\<close>

definition loadPreferenceRecommendationPage ::
  "string option \<Rightarrow> parse_outcome \<Rightarrow> ReportPreference \<Rightarrow> js_error + (ReportPreference \<times> bool)"
where
  "loadPreferenceRecommendationPage storedPreference json reportPreference =
     (case storedPreference of
        None \<Rightarrow> Inr (reportPreference, True)
      | Some text \<Rightarrow>
          if text = [] then Inr (reportPreference, True)
          else (case parsePreference json of
                  Inl e \<Rightarrow> Inr (defaultPreference, True)
                | Inr p \<Rightarrow> Inr (p, True)))"

text \<open>The effect of OptionalDetailsPage: its \<^verbatim>\<open>catch\<close> is empty.\<close>

definition loadPreferenceOptionalDetailsPage ::
  "string option \<Rightarrow> parse_outcome \<Rightarrow> ReportPreference \<Rightarrow> js_error + ReportPreference"
where
  "loadPreferenceOptionalDetailsPage storedPreference json reportPreference =
     (case storedPreference of
        None \<Rightarrow> Inr reportPreference
      | Some text \<Rightarrow>
          if text = [] then Inr reportPreference
          else (case parsePreference json of
                  Inl e \<Rightarrow> Inr reportPreference
                | Inr p \<Rightarrow> Inr p))"

section \<open>Validation and submission (OptionalDetailsPage.tsx)\<close>

record optional_page =
  formData :: jsval
  reportPreference :: ReportPreference
  reportError :: string

text \<open>
  The browser around the page: the stored items, each as the value whose JSON text is
  stored, and the routes navigated to, the latest last.
\<close>

record browser =
  localStorage :: "string \<Rightarrow> jsval option"
  navigated :: "string list"

definition validateReportPreference :: "optional_page \<Rightarrow> bool \<times> optional_page" where
  "validateReportPreference page =
     (if reportType (reportPreference page) = Single
         \<and> \<not> truthy (investmentType (reportPreference page))
      then (False,
            page\<lparr>reportError := ''Please choose a category for the single-investment report.''\<rparr>)
      else (True, page\<lparr>reportError := []\<rparr>))"

definition setItem :: "string \<Rightarrow> jsval \<Rightarrow> browser \<Rightarrow> browser" where
  "setItem k v b = b\<lparr>localStorage := (localStorage b)(k \<mapsto> jsonValue v)\<rparr>"

definition navigate :: "string \<Rightarrow> browser \<Rightarrow> browser" where
  "navigate route b = b\<lparr>navigated := navigated b @ [route]\<rparr>"

definition persistReportPreference :: "optional_page \<Rightarrow> browser \<Rightarrow> browser" where
  "persistReportPreference page b =
     setItem ''reportPreference''
       (JObj [(''reportType'', JStr (reportTypeString (reportType (reportPreference page)))),
              (''investmentType'', investmentType (reportPreference page))]) b"

definition handleSubmit :: "optional_page \<Rightarrow> browser \<Rightarrow> optional_page \<times> browser" where
  "handleSubmit page b =
     (case validateReportPreference page of
        (ok, page') \<Rightarrow>
          if \<not> ok then (page', b)
          else (page',
                navigate ''/recommendation''
                  (persistReportPreference page (setItem ''optionalDetails'' (formData page) b))))"

definition handleSkip :: "optional_page \<Rightarrow> browser \<Rightarrow> optional_page \<times> browser" where
  "handleSkip page b =
     (case validateReportPreference page of
        (ok, page') \<Rightarrow>
          if \<not> ok then (page', b)
          else (page', navigate ''/recommendation'' (persistReportPreference page b)))"

section \<open>Explanations (RecommendationPage.tsx)\<close>

text \<open>
  \<^verbatim>\<open>riskNarratives\<close> and \<^verbatim>\<open>buildExplanation\<close>. The page's \<^verbatim>\<open>riskPreference\<close> is a
  string wherever a card is rendered (the page calls \<^verbatim>\<open>toLowerCase\<close> on it first).
  \<^verbatim>\<open>riskNarratives[riskPreference]\<close> is the narrative of the table, or the member that
  the table inherits under that name, or \<^verbatim>\<open>undefined\<close>, and only the last is replaced by
  the default clause. The template literal turns an inherited member into a string:
  \<^verbatim>\<open>'[object Object]'\<close> for \<^verbatim>\<open>Object.prototype\<close>, and for a function the text the
  runtime prints for it, the parameter \<open>F\<close>.
\<close>

definition riskNarratives :: "(string \<times> string) list" where
  "riskNarratives =
     [(''Low'', ''prioritize stability, capital protection, and steady income.''),
      (''Medium'', ''balance long-term growth with reasonable stability.''),
      (''High'', ''maximize long-term growth even if short-term volatility increases.'')]"

definition buildExplanation :: "(string \<Rightarrow> string) \<Rightarrow> string \<Rightarrow> string \<Rightarrow> jsval \<Rightarrow> jsval" where
  "buildExplanation F riskPreference categoryLabel custom =
     (if truthy custom then custom
      else
        let narrative =
              (case map_of riskNarratives riskPreference of
                 Some n \<Rightarrow> n
               | None \<Rightarrow>
                   if riskPreference = ''__proto__'' then ''[object Object]''
                   else if riskPreference \<in> set objectPrototypeFunctions then F riskPreference
                   else ''deliver a balanced mix of growth and stability.'')
        in JStr (categoryLabel @ '' are selected to '' @ narrative))"

text \<open>
  \<^verbatim>\<open>buildSingleItemExplanation\<close>: \<open>singleItemParts\<close> is the array \<^verbatim>\<open>parts\<close> at the
  \<^verbatim>\<open>return\<close>, threaded through the pushes in the source's order. \<^verbatim>\<open>extras\<close> is
  truthy, so the reads on it do not throw. The template literal of a return may throw;
  that of an extra metric is the string of a number. The separator is a bullet (U+2022,
  three bytes) between two spaces.
\<close>

definition returns5y :: "jsval \<Rightarrow> jsval" where
  "returns5y item = nullishOr (optProp item ''5y_return'') (optProp item ''return_5yr'')"

definition returns3y :: "jsval \<Rightarrow> jsval" where
  "returns3y item = nullishOr (optProp item ''3y_return'') (optProp item ''return_3yr'')"

definition extrasOf :: "jsval \<Rightarrow> jsval" where
  "extrasOf item = logicalOr (optProp item ''extra_metrics'') (JObj [])"

definition bulletSeparator :: string where
  "bulletSeparator = [CHR 0x20, CHR 0xE2, CHR 0x80, CHR 0xA2, CHR 0x20]"

definition push :: "string list \<Rightarrow> string \<Rightarrow> string list" where
  "push parts p = parts @ [p]"

text \<open>\<^verbatim>\<open>if (typeof v === 'number') { parts.push(`label${v}unit`) }\<close>.\<close>

definition pushIfNumber ::
  "(jsnum \<Rightarrow> string) \<Rightarrow> string \<Rightarrow> jsval \<Rightarrow> string \<Rightarrow> string list \<Rightarrow> string list"
where
  "pushIfNumber N l v u parts =
     (case v of JNum n \<Rightarrow> push parts (l @ N n @ u) | _ \<Rightarrow> parts)"

definition singleItemParts :: "(jsnum \<Rightarrow> string) \<Rightarrow> jsval \<Rightarrow> js_error + string list" where
  "singleItemParts N item =
     (let extras = extrasOf item;
          parts = []
      in
        bindE (if truthy (returns5y item)
               then bindE (toStr N (returns5y item))
                      (\<lambda>t. Inr (push parts (''5Y CAGR '' @ t @ ''%'')))
               else if truthy (returns3y item)
               then bindE (toStr N (returns3y item))
                      (\<lambda>t. Inr (push parts (''3Y CAGR '' @ t @ ''%'')))
               else Inr parts)
        (\<lambda>parts.
          let parts = pushIfNumber N ''Yield '' (getProp extras ''yield'') ''%'' parts;
              parts = pushIfNumber N ''Expense Ratio '' (getProp extras ''expense_ratio'') ''%'' parts;
              parts = pushIfNumber N ''Consistency '' (getProp extras ''consistency'') ''%'' parts;
              parts = pushIfNumber N ''Volatility '' (getProp extras ''volatility'') ''%'' parts;
              parts = pushIfNumber N ''Duration '' (getProp extras ''duration'') '' yrs'' parts;
              parts = pushIfNumber N ''Beta '' (getProp extras ''beta'') [] parts
          in Inr parts))"

definition buildSingleItemExplanation :: "(jsnum \<Rightarrow> string) \<Rightarrow> jsval \<Rightarrow> js_error + jsval" where
  "buildSingleItemExplanation N item =
     bindE (singleItemParts N item)
       (\<lambda>parts. Inr (if parts \<noteq> [] then JStr (joinWith bulletSeparator parts) else JUndefined))"

text \<open>
  In the specification's words: the fragments of the extra metrics in a fixed order,
  each with its label and its unit, only for a value that is a number.
\<close>

definition extraMetricLabels :: "(string \<times> string \<times> string) list" where
  "extraMetricLabels =
     [(''yield'', ''Yield '', ''%''),
      (''expense_ratio'', ''Expense Ratio '', ''%''),
      (''consistency'', ''Consistency '', ''%''),
      (''volatility'', ''Volatility '', ''%''),
      (''duration'', ''Duration '', '' yrs''),
      (''beta'', ''Beta '', [])]"

definition extraFragment :: "(jsnum \<Rightarrow> string) \<Rightarrow> jsval \<Rightarrow> string \<times> string \<times> string \<Rightarrow> string list" where
  "extraFragment N extras m =
     (case getProp extras (fst m) of
        JNum n \<Rightarrow> [fst (snd m) @ N n @ snd (snd m)]
      | _ \<Rightarrow> [])"

definition extraFragments :: "(jsnum \<Rightarrow> string) \<Rightarrow> jsval \<Rightarrow> string list" where
  "extraFragments N item = concat (map (extraFragment N (extrasOf item)) extraMetricLabels)"

text \<open>
  The joined explanation of a list of fragments: \<^verbatim>\<open>undefined\<close> for none, else the
  fragments with a space, a bullet and a space between them.
\<close>

definition joinedFragments :: "string list \<Rightarrow> jsval" where
  "joinedFragments fs =
     (if fs = [] then JUndefined
      else JStr (joinWith [CHR 0x20, CHR 0xE2, CHR 0x80, CHR 0xA2, CHR 0x20] fs))"

section \<open>The single-mode metric formatter (RecommendationPage.tsx)\<close>

fun typeofJs :: "jsval \<Rightarrow> string" where
  "typeofJs JUndefined = ''undefined''"
| "typeofJs JNull = ''object''"
| "typeofJs (JBool b) = ''boolean''"
| "typeofJs (JNum n) = ''number''"
| "typeofJs (JStr s) = ''string''"
| "typeofJs (JArr xs) = ''object''"
| "typeofJs (JObj kvs) = ''object''"

text \<open>
  \<^verbatim>\<open>Object.entries\<close>: a TypeError on \<^verbatim>\<open>null\<close> and \<^verbatim>\<open>undefined\<close>; the elements of an
  array and the characters of a string under their indices; nothing for a number or a
  boolean.
\<close>

fun objectEntries :: "jsval \<Rightarrow> js_error + (string \<times> jsval) list" where
  "objectEntries JUndefined = Inl TypeError"
| "objectEntries JNull = Inl TypeError"
| "objectEntries (JObj kvs) = Inr kvs"
| "objectEntries (JArr xs) = Inr (zip (map showNat [0..<length xs]) xs)"
| "objectEntries (JStr s) = Inr (zip (map showNat [0..<length s]) (map (\<lambda>c. JStr [c]) s))"
| "objectEntries v = Inr []"

text \<open>
  \<^verbatim>\<open>.map(([key, val]) => `${key}: ${val}`)\<close>: the conversion of a value may throw.
\<close>

fun entryStrings :: "(jsnum \<Rightarrow> string) \<Rightarrow> (string \<times> jsval) list \<Rightarrow> js_error + string list" where
  "entryStrings N [] = Inr []"
| "entryStrings N (kv # kvs) =
     bindE (toStr N (snd kv))
       (\<lambda>t. bindE (entryStrings N kvs) (\<lambda>ts. Inr ((fst kv @ '': '' @ t) # ts)))"

text \<open>
  \<open>L n locale d\<close> is the runtime's
  \<^verbatim>\<open>n.toLocaleString(locale, { maximumFractionDigits: d })\<close>, a parameter like \<open>N\<close>.
\<close>

definition formatSingleMetricValue ::
  "(jsnum \<Rightarrow> string) \<Rightarrow> (jsnum \<Rightarrow> string \<Rightarrow> nat \<Rightarrow> string) \<Rightarrow> jsval \<Rightarrow> js_error + jsval"
where
  "formatSingleMetricValue N L v =
     (if v = JNull \<or> v = JUndefined then Inr (JStr ''NA'')
      else
        (case v of
           JNum n \<Rightarrow> Inr (JStr (L n ''en-IN'' 2))
         | _ \<Rightarrow>
             if typeofJs v = ''object'' then
               bindE (objectEntries v)
                 (\<lambda>entries. bindE (entryStrings N entries)
                   (\<lambda>parts. Inr (JStr (joinWith '', '' parts))))
             else Inr v))"

text \<open>The string of a value whose conversion does not throw.\<close>

definition stringOf :: "(jsnum \<Rightarrow> string) \<Rightarrow> jsval \<Rightarrow> string" where
  "stringOf N v = (case toStr N v of Inr s \<Rightarrow> s | Inl e \<Rightarrow> [])"

text \<open>Whether some entry of an object or an array has a value whose conversion throws.\<close>

definition entryFails :: "jsval \<Rightarrow> bool" where
  "entryFails v =
     (case v of
        JObj kvs \<Rightarrow> list_ex (\<lambda>kv. toPrimitiveFails (snd kv)) kvs
      | JArr xs \<Rightarrow> list_ex toPrimitiveFails xs
      | _ \<Rightarrow> False)"

section \<open>Category resolution\<close>

lemma scanKeys_firstNonEmptyAlias: "scanKeys r ks = firstNonEmptyAlias r ks"
  by (induction ks)
     (auto simp: firstNonEmptyAlias_def nonEmptyArray_def arrayItems_def split: jsval.splits)

lemma falsy_has_no_array: "\<not> truthy r \<Longrightarrow> \<not> nonEmptyArray (getProp r k)"
  by (cases r) (auto simp: nonEmptyArray_def split: option.splits)

lemma find_none: "(\<And>k. \<not> P k) \<Longrightarrow> List.find P ks = None"
  by (induction ks) auto

lemma getCategoryItems_eq: "getCategoryItems r ks = firstNonEmptyAlias r ks"
proof (cases "truthy r")
  case True
  then show ?thesis
    by (simp add: getCategoryItems_def scanKeys_firstNonEmptyAlias)
next
  case False
  then have "List.find (\<lambda>k. nonEmptyArray (getProp r k)) ks = None"
    by (intro find_none falsy_has_no_array)
  with False show ?thesis
    by (simp add: getCategoryItems_def firstNonEmptyAlias_def)
qed

text \<open>
  Claim C1, as the code has it. For every response and every alias list,
  \<^verbatim>\<open>getCategoryItems\<close> returns the array under the first alias, in the order of the
  list, whose value is a non-empty array, and the empty list when there is none; each of
  the five sections gets the items of its own alias list. For the response
  \<^verbatim>\<open>{gold_etf: [x], gold: [y]}\<close> the Gold ETFs section holds \<^verbatim>\<open>[y]\<close>: \<^verbatim>\<open>gold\<close>
  comes before \<^verbatim>\<open>gold_etf\<close> in the alias list.
\<close>

theorem getCategoryItems_first_alias:
  "getCategoryItems response aliases = firstNonEmptyAlias response aliases
   \<and> map (\<lambda>s. (label s, items s)) (recommendationSections response)
       = map (\<lambda>c. (label c, firstNonEmptyAlias response (keys c))) categoryConfigs
   \<and> sectionItems (JObj [(''gold_etf'', JArr [x]), (''gold'', JArr [y])]) ''Gold ETFs''
       = Some [y]"
proof -
  have "map (\<lambda>s. (label s, items s)) (recommendationSections response)
          = map (\<lambda>c. (label c, firstNonEmptyAlias response (keys c))) categoryConfigs"
    by (simp add: recommendationSections_def getCategoryItems_eq)
  moreover
  have "sectionItems (JObj [(''gold_etf'', JArr [x]), (''gold'', JArr [y])]) ''Gold ETFs''
          = Some [y]"
    by (simp add: sectionItems_def recommendationSections_def categoryConfigs_def
                  getCategoryItems_def)
  ultimately show ?thesis
    by (simp add: getCategoryItems_eq)
qed

theorem getCategoryItems_first_alias_witness:
  "getCategoryItems (JObj [(''gold_etfs'', JArr [JStr ''a'']), (''gold'', JArr [])])
                    [''gold'', ''gold_etf'', ''gold_etfs'']
     = [JStr ''a'']
   \<and> sectionItems (JObj [(''gold_etf'', JArr [JStr ''x'']), (''gold'', JArr [JStr ''y''])])
                   ''Gold ETFs''
     = Some [JStr ''y'']"
  using getCategoryItems_first_alias
          [of "JObj [(''gold_etfs'', JArr [JStr ''a'']), (''gold'', JArr [])]"
              "[''gold'', ''gold_etf'', ''gold_etfs'']" "JStr ''x''" "JStr ''y''"]
  by (simp add: firstNonEmptyAlias_def nonEmptyArray_def arrayItems_def)

text \<open>
  Claim C1, as the specification states its example: the Gold ETFs section of
  \<^verbatim>\<open>{gold_etf: [x], gold: [y]}\<close> is not \<^verbatim>\<open>[x]\<close>.
\<close>

theorem gold_etfs_bucket_counterexample:
  "sectionItems (JObj [(''gold_etf'', JArr [JStr ''x'']), (''gold'', JArr [JStr ''y''])])
                ''Gold ETFs''
     \<noteq> Some [JStr ''x'']"
  by (simp add: sectionItems_def recommendationSections_def categoryConfigs_def
                getCategoryItems_def)

section \<open>Conversions\<close>

lemma toStr_outcome:
  "(toPrimitiveFails v \<longrightarrow> toStr N v = Inl TypeError)
   \<and> (\<not> toPrimitiveFails v \<longrightarrow> (\<exists>s. toStr N v = Inr s))"
  "(list_ex toPrimitiveFails xs \<longrightarrow> elementStrings N xs = Inl TypeError)
   \<and> (\<not> list_ex toPrimitiveFails xs \<longrightarrow> (\<exists>ps. elementStrings N xs = Inr ps))"
proof (induction N v and N xs rule: toStr_elementStrings.induct)
  case (6 N xs)
  then show ?case by auto
next
  case (9 N x xs)
  then show ?case by (cases x) auto
qed simp_all

lemma toStr_throws: "(toStr N v = Inl e) = (toPrimitiveFails v \<and> e = TypeError)"
  using toStr_outcome(1) [of v N] by (cases "toPrimitiveFails v") auto

lemma toStr_stringOf: "\<not> toPrimitiveFails v \<Longrightarrow> toStr N v = Inr (stringOf N v)"
  using toStr_outcome(1) [of v N] by (auto simp: stringOf_def)

lemma toNumber_throws: "(toNumber v = Inl e) = (toPrimitiveFails v \<and> e = TypeError)"
  by (induction v arbitrary: e rule: toNumber.induct) (auto split: jsval.splits)

lemma toNumber_returns: "(\<exists>n. toNumber v = Inr n) = (\<not> toPrimitiveFails v)"
proof (cases "toNumber v")
  case (Inl e)
  then show ?thesis using toNumber_throws [of v e] by simp
next
  case (Inr n)
  then show ?thesis using toNumber_throws [of v TypeError] by auto
qed

section \<open>The request payload\<close>

lemma map_of_filter_distinct:
  "distinct (map fst kvs) \<Longrightarrow>
   map_of (filter P kvs) k
     = (case map_of kvs k of Some v \<Rightarrow> if P (k, v) then Some v else None | None \<Rightarrow> None)"
proof (induction kvs)
  case Nil
  then show ?case by simp
next
  case (Cons kv kvs)
  obtain a b where kv: "kv = (a, b)" by (cases kv)
  from Cons.prems have nin: "a \<notin> fst ` set kvs" and d: "distinct (map fst kvs)"
    by (auto simp: kv)
  from nin have none: "map_of kvs a = None"
    by (simp add: map_of_eq_None_iff)
  show ?case
    using Cons.IH [OF d] none by (auto simp: kv split: option.splits)
qed

lemma map_of_map_value:
  "map_of (map (\<lambda>kv. (fst kv, f (snd kv))) kvs) k = map_option f (map_of kvs k)"
  by (induction kvs) auto

lemma map_of_stringified:
  "distinct (map fst payload) \<Longrightarrow>
   map_of (map (\<lambda>kv. (fst kv, jsonValue (snd kv)))
               (filter (\<lambda>kv. snd kv \<noteq> JUndefined) payload)) k
     = (case map_of payload k of
          Some v \<Rightarrow> if v = JUndefined then None else Some (jsonValue v)
        | None \<Rightarrow> None)"
  by (simp add: map_of_map_value map_of_filter_distinct split: option.splits)

lemma bindE_Inr: "(bindE m f = Inr y) = (\<exists>x. m = Inr x \<and> f x = Inr y)"
  by (cases m) (simp_all add: bindE_def)

lemma buildPayload_built:
  assumes "buildPayload details preference = Inr payload"
  shows "distinct (map fst payload)"
    and "map_of payload ''report_type'' = Some (JStr (reportTypeString (reportType preference)))"
    and "map_of payload ''investment_type'' = Some (logicalOr (investmentType preference) JUndefined)"
    and "\<not> nullish details"
proof -
  from assms have n: "\<not> nullish details"
    by (auto simp: buildPayload_def split: if_splits)
  with assms obtain a b c d e where
    "payload =
       [(''age'', JNum a), (''investment_amount'', JNum b),
        (''risk_preference'',
           nullishOr (nullishOr (getProp details ''riskPreference'')
                                (getProp details ''risk_preference'')) (JStr ''Medium'')),
        (''monthly_income'', c), (''savings'', d),
        (''time_horizon'',
           nullishOr (getProp details ''timeHorizon'') (getProp details ''time_horizon'')),
        (''experience_level'',
           nullishOr (getProp details ''experienceLevel'')
                     (getProp details ''experience_level'')),
        (''financial_goals'',
           nullishOr (getProp details ''financialGoals'')
                     (getProp details ''financial_goals'')),
        (''monthly_expenses'', e),
        (''report_type'', JStr (reportTypeString (reportType preference))),
        (''investment_type'', logicalOr (investmentType preference) JUndefined)]"
    by (auto simp: buildPayload_def bindE_Inr)
  then show "distinct (map fst payload)"
    and "map_of payload ''report_type'' = Some (JStr (reportTypeString (reportType preference)))"
    and "map_of payload ''investment_type'' = Some (logicalOr (investmentType preference) JUndefined)"
    by simp_all
  from n show "\<not> nullish details" .
qed

text \<open>
  Claim C5, as the code has it. The body sent for a payload that has been built carries
  \<^verbatim>\<open>report_type\<close> as the preference has it, and carries \<^verbatim>\<open>investment_type\<close> exactly
  when the preference's \<^verbatim>\<open>investmentType\<close> is truthy (for a string: not empty), then
  unchanged; the report type plays no part in it.
\<close>

theorem request_report_fields:
  "buildPayload details preference = Inr payload \<longrightarrow>
     getProp (requestBody payload) ''report_type''
       = JStr (reportTypeString (reportType preference))
     \<and> hasKey (requestBody payload) ''investment_type'' = truthy (investmentType preference)
     \<and> getProp (requestBody payload) ''investment_type''
       = (if truthy (investmentType preference) then jsonValue (investmentType preference)
          else JUndefined)
     \<and> jsonValue (JStr s) = JStr s"
proof
  assume built: "buildPayload details preference = Inr payload"
  note p = buildPayload_built [OF built]
  have a: "getProp (requestBody payload) ''report_type''
             = JStr (reportTypeString (reportType preference))"
    by (simp add: requestBody_def map_of_stringified [OF p(1)] p(2))
  have b: "hasKey (requestBody payload) ''investment_type''
             = truthy (investmentType preference)"
    by (auto simp: requestBody_def hasKey_def map_of_stringified [OF p(1)] p(3) logicalOr_def)
  have c: "getProp (requestBody payload) ''investment_type''
             = (if truthy (investmentType preference)
                then jsonValue (investmentType preference) else JUndefined)"
    by (auto simp: requestBody_def map_of_stringified [OF p(1)] p(3) logicalOr_def)
  from a b c show "getProp (requestBody payload) ''report_type''
       = JStr (reportTypeString (reportType preference))
     \<and> hasKey (requestBody payload) ''investment_type'' = truthy (investmentType preference)
     \<and> getProp (requestBody payload) ''investment_type''
       = (if truthy (investmentType preference) then jsonValue (investmentType preference)
          else JUndefined)
     \<and> jsonValue (JStr s) = JStr s"
    by simp
qed

text \<open>Scenario A: the preference \<^verbatim>\<open>{full, ''}\<close>.\<close>

lemma sample_payload:
  "buildPayload (JObj [(''age'', JNum (Num 30)), (''investmentAmount'', JNum (Num 50000)),
                       (''riskPreference'', JStr ''Medium'')]) preference
     = Inr [(''age'', JNum (Num 30)), (''investment_amount'', JNum (Num 50000)),
            (''risk_preference'', JStr ''Medium''), (''monthly_income'', JUndefined),
            (''savings'', JUndefined), (''time_horizon'', JUndefined),
            (''experience_level'', JUndefined), (''financial_goals'', JUndefined),
            (''monthly_expenses'', JUndefined),
            (''report_type'', JStr (reportTypeString (reportType preference))),
            (''investment_type'', logicalOr (investmentType preference) JUndefined)]"
  by (simp add: buildPayload_def bindE_def nullishOr_def parseOptionalNumber_def)

theorem request_report_fields_witness:
  "(case buildPayload
           (JObj [(''age'', JNum (Num 30)), (''investmentAmount'', JNum (Num 50000)),
                  (''riskPreference'', JStr ''Medium'')])
           \<lparr>reportType = Full, investmentType = JStr []\<rparr> of
      Inl e \<Rightarrow> False
    | Inr payload \<Rightarrow>
        getProp (requestBody payload) ''report_type'' = JStr ''full''
        \<and> \<not> hasKey (requestBody payload) ''investment_type'')"
  using request_report_fields
          [of "JObj [(''age'', JNum (Num 30)), (''investmentAmount'', JNum (Num 50000)),
                     (''riskPreference'', JStr ''Medium'')]"
              "\<lparr>reportType = Full, investmentType = JStr []\<rparr>"]
  by (simp add: sample_payload)

text \<open>
  Claim C5, as the specification states it: a request whose preference is not Single
  would carry no \<^verbatim>\<open>investment_type\<close>. The preference \<^verbatim>\<open>{full, 'gold'}\<close> (a category
  chosen, then the report type switched back) sends one.
\<close>

theorem full_report_sends_investment_type_counterexample:
  "reportType \<lparr>reportType = Full, investmentType = JStr ''gold''\<rparr> \<noteq> Single
   \<and> (case buildPayload
             (JObj [(''age'', JNum (Num 30)), (''investmentAmount'', JNum (Num 50000)),
                    (''riskPreference'', JStr ''Medium'')])
             \<lparr>reportType = Full, investmentType = JStr ''gold''\<rparr> of
        Inl e \<Rightarrow> False
      | Inr payload \<Rightarrow> getProp (requestBody payload) ''investment_type'' = JStr ''gold'')"
  by (simp add: sample_payload requestBody_def logicalOr_def)

section \<open>Optional numbers\<close>

lemmas number_defs =
  StringToNumber_def trimString_def asciiWhiteSpace_def whiteSpace2_def whiteSpace3_def
  strNumericLiteral_def nonDecimalIntegerLiteral_def strUnsignedDecimalLiteral_def
  isDecimalDigit_def exponentPart_def numberValue_def scale10_def radixValue_def digitOf_def
  digitsIn_def

text \<open>
  Claim C4, as the code has it. \<^verbatim>\<open>parseOptionalNumber\<close> returns \<^verbatim>\<open>undefined\<close> for
  \<^verbatim>\<open>undefined\<close>, \<^verbatim>\<open>null\<close> and the empty string. It returns for every string:
  \<^verbatim>\<open>undefined\<close> when \<^verbatim>\<open>Number\<close> of it is \<^verbatim>\<open>NaN\<close>, and that number otherwise, an
  infinite one included; \<^verbatim>\<open>'0'\<close> gives 0. For every value whose conversion to a
  primitive does not throw, the result is \<^verbatim>\<open>undefined\<close> or a number that is not
  \<^verbatim>\<open>NaN\<close>.
\<close>

theorem parseOptionalNumber_cases:
  "parseOptionalNumber JUndefined = Inr JUndefined
   \<and> parseOptionalNumber JNull = Inr JUndefined
   \<and> parseOptionalNumber (JStr []) = Inr JUndefined
   \<and> parseOptionalNumber (JStr s)
       = Inr (if s = [] \<or> StringToNumber s = NaN then JUndefined else JNum (StringToNumber s))
   \<and> (\<not> toPrimitiveFails v
      \<longrightarrow> parseOptionalNumber v = Inr JUndefined
          \<or> (\<exists>n. n \<noteq> NaN \<and> parseOptionalNumber v = Inr (JNum n)))
   \<and> parseOptionalNumber (JStr ''0'') = Inr (JNum (Num 0))"
proof -
  have zero: "StringToNumber ''0'' = Num 0"
    by (simp add: number_defs)
  have str: "parseOptionalNumber (JStr s)
       = Inr (if s = [] \<or> StringToNumber s = NaN then JUndefined else JNum (StringToNumber s))"
    by (simp add: parseOptionalNumber_def bindE_def)
  have total: "parseOptionalNumber v = Inr JUndefined
          \<or> (\<exists>n. n \<noteq> NaN \<and> parseOptionalNumber v = Inr (JNum n))"
    if "\<not> toPrimitiveFails v"
  proof -
    from that obtain n where "toNumber v = Inr n"
      using toNumber_returns [of v] by blast
    then show ?thesis
      by (simp add: parseOptionalNumber_def bindE_def)
  qed
  from zero str total show ?thesis
    by (simp add: parseOptionalNumber_def bindE_def)
qed

theorem parseOptionalNumber_cases_witness:
  "parseOptionalNumber (JStr ''12.5'') = Inr (JNum (Num (25 / 2)))
   \<and> parseOptionalNumber (JStr ''abc'') = Inr JUndefined
   \<and> parseOptionalNumber (JStr [CHR 0xC2, CHR 0xA0, CHR ''5'']) = Inr (JNum (Num 5))
   \<and> parseOptionalNumber (JBool True) = Inr (JNum (Num 1))"
  using parseOptionalNumber_cases [of "''12.5''"] parseOptionalNumber_cases [of "''abc''"]
        parseOptionalNumber_cases [of "[CHR 0xC2, CHR 0xA0, CHR ''5'']" "JBool True"]
  by (simp add: number_defs parseOptionalNumber_def bindE_def)

text \<open>
  Claim C4, as the specification states it: the function would be total, and a string
  that does not parse to a finite number would be absent. \<^verbatim>\<open>Number('Infinity')\<close> is
  not finite, and it is returned; and \<^verbatim>\<open>Number\<close> throws on an object that has a key
  \<^verbatim>\<open>toString\<close>.
\<close>

theorem parseOptionalNumber_infinity_counterexample:
  "StringToNumber ''Infinity'' = PosInf
   \<and> parseOptionalNumber (JStr ''Infinity'') = Inr (JNum PosInf)
   \<and> parseOptionalNumber (JObj [(''toString'', JNull)]) = Inl TypeError"
  by (simp add: parseOptionalNumber_def bindE_def number_defs)

section \<open>The fetch\<close>

lemma fetch_sent:
  "buildPayload details preference = Inr payload \<Longrightarrow>
   fetchRecommendations details preference backend st
     = \<lparr>atStart = st\<lparr>recommendationLoading := True, recommendationError := None\<rparr>,
        atEnd = fetchSettle (backend (requestBody payload))
                  (st\<lparr>recommendationLoading := True, recommendationError := None\<rparr>),
        rejection = None\<rparr>"
  by (simp add: fetchRecommendations_def Let_def)

lemma fetch_not_sent:
  "buildPayload details preference = Inl e \<Longrightarrow>
   fetchRecommendations details preference backend st
     = \<lparr>atStart = st\<lparr>recommendationLoading := True, recommendationError := None\<rparr>,
        atEnd = st\<lparr>recommendationLoading := True, recommendationError := None\<rparr>,
        rejection = Some e\<rparr>"
  by (simp add: fetchRecommendations_def Let_def)

lemma fetch_atStart:
  "atStart (fetchRecommendations details preference backend st)
     = st\<lparr>recommendationLoading := True, recommendationError := None\<rparr>"
  by (simp add: fetchRecommendations_def Let_def split: sum.splits)

lemma settle_not_loading: "\<not> recommendationLoading (fetchSettle r s)"
  by (simp add: fetchSettle_def split: sum.splits)

lemma settle_thrown:
  "tryBlock result s = Inl message \<Longrightarrow>
   fetchSettle result s
     = \<lparr>recommendationResults = JNull, recommendationLoading = False,
        recommendationError =
          Some (if message \<noteq> [] then message else ''Failed to load recommendations''),
        reportMode = Full, singleReportData = JNull\<rparr>"
  by (cases s) (simp add: fetchSettle_def catchBlock_def)


text \<open>
  Claim C3. Every call of \<^verbatim>\<open>fetchRecommendations\<close> begins by setting the loading flag
  and clearing the error. When its request has been sent, the promise is not rejected and
  the flag is cleared at the end, whatever came back. When the request is rejected, the
  status is not a success, or the body does not parse, the state at the end is the empty
  full-mode state with the message of the error (the fixed message for a non-success
  status, the fallback message for an empty one), whatever the state was before.
\<close>

theorem failed_fetch_resets_state:
  "atStart (fetchRecommendations details preference backend st)
     = st\<lparr>recommendationLoading := True, recommendationError := None\<rparr>
   \<and> recommendationLoading (atStart (fetchRecommendations details preference backend st))
   \<and> (buildPayload details preference = Inr payload \<longrightarrow>
        rejection (fetchRecommendations details preference backend st) = None
        \<and> \<not> recommendationLoading (atEnd (fetchRecommendations details preference backend st))
        \<and> (backend (requestBody payload) = Response False body \<longrightarrow>
             atEnd (fetchRecommendations details preference backend st)
               = \<lparr>recommendationResults = JNull, recommendationLoading = False,
                  recommendationError = Some ''Unable to fetch recommendations'',
                  reportMode = Full, singleReportData = JNull\<rparr>)
        \<and> (backend (requestBody payload) = Rejected message
             \<or> backend (requestBody payload) = Response True (Inl message) \<longrightarrow>
             atEnd (fetchRecommendations details preference backend st)
               = \<lparr>recommendationResults = JNull, recommendationLoading = False,
                  recommendationError =
                    Some (if message \<noteq> [] then message
                          else ''Failed to load recommendations''),
                  reportMode = Full, singleReportData = JNull\<rparr>))"
proof -
  have a: "recommendationLoading (atStart (fetchRecommendations details preference backend st))"
    by (simp add: fetch_atStart)
  have b: "rejection (fetchRecommendations details preference backend st) = None
        \<and> \<not> recommendationLoading (atEnd (fetchRecommendations details preference backend st))"
    if "buildPayload details preference = Inr payload"
    by (simp add: fetch_sent [OF that] settle_not_loading)
  have c: "atEnd (fetchRecommendations details preference backend st)
               = \<lparr>recommendationResults = JNull, recommendationLoading = False,
                  recommendationError = Some ''Unable to fetch recommendations'',
                  reportMode = Full, singleReportData = JNull\<rparr>"
    if "buildPayload details preference = Inr payload"
      and r: "backend (requestBody payload) = Response False body"
  proof -
    have "tryBlock (Response False body) s = Inl ''Unable to fetch recommendations''" for s
      by (simp add: tryBlock_def)
    from settle_thrown [OF this] show ?thesis
      by (simp add: fetch_sent [OF that(1)] r)
  qed
  have d: "atEnd (fetchRecommendations details preference backend st)
               = \<lparr>recommendationResults = JNull, recommendationLoading = False,
                  recommendationError =
                    Some (if message \<noteq> [] then message
                          else ''Failed to load recommendations''),
                  reportMode = Full, singleReportData = JNull\<rparr>"
    if "buildPayload details preference = Inr payload"
      and r: "backend (requestBody payload) = Rejected message
             \<or> backend (requestBody payload) = Response True (Inl message)"
  proof -
    from r have "tryBlock (backend (requestBody payload)) s = Inl message" for s
      by (auto simp: tryBlock_def)
    from settle_thrown [OF this] show ?thesis
      by (simp add: fetch_sent [OF that(1)])
  qed
  from a b c d show ?thesis
    using fetch_atStart [of details preference backend st] by blast
qed

text \<open>Scenario C: a non-success status arrives while a single-mode report is shown.\<close>

theorem failed_fetch_resets_state_witness:
  "fetchRecommendations
      (JObj [(''age'', JNum (Num 30)), (''investmentAmount'', JNum (Num 50000)),
             (''riskPreference'', JStr ''Medium'')])
      \<lparr>reportType = Single, investmentType = JStr ''gold''\<rparr>
      (\<lambda>body. Response False (Inr JNull))
      \<lparr>recommendationResults = JObj [], recommendationLoading = False,
       recommendationError = Some ''old'', reportMode = Single, singleReportData = JObj []\<rparr>
    = \<lparr>atStart =
         \<lparr>recommendationResults = JObj [], recommendationLoading = True,
          recommendationError = None, reportMode = Single, singleReportData = JObj []\<rparr>,
       atEnd =
         \<lparr>recommendationResults = JNull, recommendationLoading = False,
          recommendationError = Some ''Unable to fetch recommendations'', reportMode = Full,
          singleReportData = JNull\<rparr>,
       rejection = None\<rparr>"
  using failed_fetch_resets_state
          [where details = "JObj [(''age'', JNum (Num 30)),
                                  (''investmentAmount'', JNum (Num 50000)),
                                  (''riskPreference'', JStr ''Medium'')]"
             and preference = "\<lparr>reportType = Single, investmentType = JStr ''gold''\<rparr>"
             and st = "\<lparr>recommendationResults = JObj [], recommendationLoading = False,
                        recommendationError = Some ''old'', reportMode = Single,
                        singleReportData = JObj []\<rparr>"
             and backend = "\<lambda>body. Response False (Inr JNull)"
             and body = "Inr JNull"]
  by (cases "fetchRecommendations
      (JObj [(''age'', JNum (Num 30)), (''investmentAmount'', JNum (Num 50000)),
             (''riskPreference'', JStr ''Medium'')])
      \<lparr>reportType = Single, investmentType = JStr ''gold''\<rparr>
      (\<lambda>body. Response False (Inr JNull))
      \<lparr>recommendationResults = JObj [], recommendationLoading = False,
       recommendationError = Some ''old'', reportMode = Single, singleReportData = JObj []\<rparr>")
     (simp add: sample_payload)

section \<open>The report mode\<close>










section \<open>Loading the stored preference\<close>

lemma parsePreference_cases:
  "parsePreference json
     = (case json of
          ParseError \<Rightarrow> Inl SyntaxError
        | Parsed parsed \<Rightarrow>
            if nullish parsed then Inl TypeError
            else Inr \<lparr>reportType = (if getProp parsed ''reportType'' = JStr ''single''
                                      then Single else Full),
                       investmentType = (if truthy (getProp parsed ''investmentType'')
                                         then getProp parsed ''investmentType'' else JStr [])\<rparr>)"
  by (simp add: parsePreference_def member_def logicalOr_def split: parse_outcome.splits)

text \<open>
  Claim C6, as the code has it. On both pages the load effect ends without an exception,
  whatever is stored. Run on the initial state, it leaves the default preference when
  nothing is stored, when the stored text is empty, when the text does not parse, and when
  it parses to \<^verbatim>\<open>null\<close>. For every other parsed value each field is read on its own:
  \<^verbatim>\<open>reportType\<close> is \<^verbatim>\<open>'single'\<close> when the stored one is exactly that and \<^verbatim>\<open>'full'\<close>
  otherwise, \<^verbatim>\<open>investmentType\<close> is the stored one when it is truthy and \<^verbatim>\<open>''\<close>
  otherwise.
\<close>

theorem load_preference_cases:
  "(\<exists>p. loadPreferenceRecommendationPage storedPreference json current = Inr (p, True))
   \<and> (\<exists>p. loadPreferenceOptionalDetailsPage storedPreference json current = Inr p)
   \<and> (storedPreference = None \<or> storedPreference = Some [] \<or> json = ParseError
        \<or> json = Parsed JNull
      \<longrightarrow> loadPreferenceRecommendationPage storedPreference json defaultPreference
            = Inr (defaultPreference, True)
          \<and> loadPreferenceOptionalDetailsPage storedPreference json defaultPreference
            = Inr defaultPreference)
   \<and> (storedText \<noteq> [] \<and> \<not> nullish parsed
      \<longrightarrow> loadPreferenceRecommendationPage (Some storedText) (Parsed parsed) current
            = Inr (\<lparr>reportType = (if getProp parsed ''reportType'' = JStr ''single''
                                   then Single else Full),
                     investmentType = (if truthy (getProp parsed ''investmentType'')
                                       then getProp parsed ''investmentType'' else JStr [])\<rparr>,
                   True)
          \<and> loadPreferenceOptionalDetailsPage (Some storedText) (Parsed parsed) current
            = Inr \<lparr>reportType = (if getProp parsed ''reportType'' = JStr ''single''
                                  then Single else Full),
                    investmentType = (if truthy (getProp parsed ''investmentType'')
                                      then getProp parsed ''investmentType'' else JStr [])\<rparr>)"
proof -
  have a: "\<exists>p. loadPreferenceRecommendationPage storedPreference json current = Inr (p, True)"
    by (simp add: loadPreferenceRecommendationPage_def split: option.splits sum.splits)
  have b: "\<exists>p. loadPreferenceOptionalDetailsPage storedPreference json current = Inr p"
    by (simp add: loadPreferenceOptionalDetailsPage_def split: option.splits sum.splits)
  have c: "storedPreference = None \<or> storedPreference = Some [] \<or> json = ParseError
        \<or> json = Parsed JNull
      \<longrightarrow> loadPreferenceRecommendationPage storedPreference json defaultPreference
            = Inr (defaultPreference, True)
          \<and> loadPreferenceOptionalDetailsPage storedPreference json defaultPreference
            = Inr defaultPreference"
    by (auto simp: loadPreferenceRecommendationPage_def loadPreferenceOptionalDetailsPage_def
                   parsePreference_cases split: option.splits)
  have d: "storedText \<noteq> [] \<and> \<not> nullish parsed
      \<longrightarrow> loadPreferenceRecommendationPage (Some storedText) (Parsed parsed) current
            = Inr (\<lparr>reportType = (if getProp parsed ''reportType'' = JStr ''single''
                                   then Single else Full),
                     investmentType = (if truthy (getProp parsed ''investmentType'')
                                       then getProp parsed ''investmentType'' else JStr [])\<rparr>,
                   True)
          \<and> loadPreferenceOptionalDetailsPage (Some storedText) (Parsed parsed) current
            = Inr \<lparr>reportType = (if getProp parsed ''reportType'' = JStr ''single''
                                  then Single else Full),
                    investmentType = (if truthy (getProp parsed ''investmentType'')
                                      then getProp parsed ''investmentType'' else JStr [])\<rparr>"
    by (simp add: loadPreferenceRecommendationPage_def loadPreferenceOptionalDetailsPage_def
                  parsePreference_cases)
  from a b c d show ?thesis by blast
qed

theorem load_preference_cases_witness:
  \<open>loadPreferenceRecommendationPage (Some ''{bad'') ParseError defaultPreference
      = Inr (defaultPreference, True)
   \<and> loadPreferenceOptionalDetailsPage
         (Some ''{"reportType":"single","investmentType":"gold"}'')
         (Parsed (JObj [(''reportType'', JStr ''single''), (''investmentType'', JStr ''gold'')]))
         defaultPreference
      = Inr \<lparr>reportType = Single, investmentType = JStr ''gold''\<rparr>\<close>
  using load_preference_cases
          [where storedPreference = "Some ''{bad''" and json = ParseError
             and storedText = \<open>''{"reportType":"single","investmentType":"gold"}''\<close>
             and parsed = "JObj [(''reportType'', JStr ''single''),
                                 (''investmentType'', JStr ''gold'')]"
             and current = defaultPreference]
  by simp

text \<open>
  Claim C6, as the specification states it: a parsed value without \<^verbatim>\<open>investmentType\<close>
  would load as the default. \<^verbatim>\<open>{"reportType":"single"}\<close> loads as \<^verbatim>\<open>{single, ''}\<close>.
\<close>

theorem load_missing_investmentType_counterexample:
  \<open>loadPreferenceRecommendationPage (Some ''{"reportType":"single"}'')
       (Parsed (JObj [(''reportType'', JStr ''single'')])) defaultPreference
     = Inr (\<lparr>reportType = Single, investmentType = JStr []\<rparr>, True)
   \<and> \<lparr>reportType = Single, investmentType = JStr []\<rparr> \<noteq> defaultPreference\<close>
  by (simp add: loadPreferenceRecommendationPage_def parsePreference_cases
                defaultPreference_def)

section \<open>Validation\<close>

lemma validate_fst:
  "fst (validateReportPreference page)
     = (\<not> (reportType (reportPreference page) = Single
            \<and> \<not> truthy (investmentType (reportPreference page))))"
  by (simp add: validateReportPreference_def)

lemma validate_snd:
  "snd (validateReportPreference page)
     = page\<lparr>reportError :=
              (if fst (validateReportPreference page) then []
               else ''Please choose a category for the single-investment report.'')\<rparr>"
  by (simp add: validateReportPreference_def)

lemma submission_blocked:
  "\<not> fst (validateReportPreference page) \<Longrightarrow>
   handleSubmit page b = (snd (validateReportPreference page), b)
   \<and> handleSkip page b = (snd (validateReportPreference page), b)"
  by (cases "validateReportPreference page") (simp add: handleSubmit_def handleSkip_def)

lemma submission_done:
  "fst (validateReportPreference page) \<Longrightarrow>
   snd (handleSubmit page b)
     = navigate ''/recommendation''
         (persistReportPreference page (setItem ''optionalDetails'' (formData page) b))"
  by (cases "validateReportPreference page") (simp add: handleSubmit_def)

text \<open>
  Claim C7. \<^verbatim>\<open>validateReportPreference\<close> fails exactly when the report type is
  \<^verbatim>\<open>'single'\<close> and the category is empty (falsy; for a string, the empty string). When it
  fails, the field message is set, and \<^verbatim>\<open>handleSubmit\<close> and \<^verbatim>\<open>handleSkip\<close> leave the
  storage and the route as they were; when it succeeds, the message is cleared and the
  page navigates on. \<^verbatim>\<open>{single, ''}\<close> fails, \<^verbatim>\<open>{single, 'gold'}\<close> and \<^verbatim>\<open>{full, x}\<close>
  succeed.
\<close>

theorem validation_gate:
  "fst (validateReportPreference page)
     = (\<not> (reportType (reportPreference page) = Single
            \<and> \<not> truthy (investmentType (reportPreference page))))
   \<and> (investmentType (reportPreference page) = JStr s
      \<longrightarrow> (\<not> fst (validateReportPreference page))
          = (reportType (reportPreference page) = Single \<and> s = []))
   \<and> (\<not> fst (validateReportPreference page)
      \<longrightarrow> reportError (snd (validateReportPreference page))
            = ''Please choose a category for the single-investment report.''
          \<and> handleSubmit page b = (snd (validateReportPreference page), b)
          \<and> handleSkip page b = (snd (validateReportPreference page), b))
   \<and> (fst (validateReportPreference page)
      \<longrightarrow> reportError (snd (validateReportPreference page)) = []
          \<and> navigated (snd (handleSubmit page b)) = navigated b @ [''/recommendation''])
   \<and> \<not> fst (validateReportPreference
               (page\<lparr>reportPreference := \<lparr>reportType = Single, investmentType = JStr []\<rparr>\<rparr>))
   \<and> fst (validateReportPreference
             (page\<lparr>reportPreference :=
                     \<lparr>reportType = Single, investmentType = JStr ''gold''\<rparr>\<rparr>))
   \<and> fst (validateReportPreference
             (page\<lparr>reportPreference := \<lparr>reportType = Full, investmentType = x\<rparr>\<rparr>))"
proof -
  have a: "investmentType (reportPreference page) = JStr s
      \<longrightarrow> (\<not> fst (validateReportPreference page))
          = (reportType (reportPreference page) = Single \<and> s = [])"
    by (simp add: validate_fst)
  have b: "\<not> fst (validateReportPreference page)
      \<longrightarrow> reportError (snd (validateReportPreference page))
            = ''Please choose a category for the single-investment report.''
          \<and> handleSubmit page b = (snd (validateReportPreference page), b)
          \<and> handleSkip page b = (snd (validateReportPreference page), b)"
    using submission_blocked [of page b] by (simp add: validate_snd)
  have c: "fst (validateReportPreference page)
      \<longrightarrow> reportError (snd (validateReportPreference page)) = []
          \<and> navigated (snd (handleSubmit page b)) = navigated b @ [''/recommendation'']"
    using submission_done [of page b]
    by (simp add: validate_snd navigate_def persistReportPreference_def setItem_def)
  have d: "\<not> fst (validateReportPreference
               (page\<lparr>reportPreference := \<lparr>reportType = Single, investmentType = JStr []\<rparr>\<rparr>))"
    by (simp add: validate_fst)
  have e: "fst (validateReportPreference
             (page\<lparr>reportPreference :=
                     \<lparr>reportType = Single, investmentType = JStr ''gold''\<rparr>\<rparr>))"
    by (simp add: validate_fst)
  have f: "fst (validateReportPreference
             (page\<lparr>reportPreference := \<lparr>reportType = Full, investmentType = x\<rparr>\<rparr>))"
    by (simp add: validate_fst)
  from a b c d e f show ?thesis
    using validate_fst [of page] by blast
qed

text \<open>Scenario B: a single-mode preference without a category is submitted.\<close>

theorem validation_gate_witness:
  "handleSubmit \<lparr>formData = JObj [(''monthlyIncome'', JStr ''50000'')],
                 reportPreference = \<lparr>reportType = Single, investmentType = JStr []\<rparr>,
                 reportError = []\<rparr>
                \<lparr>localStorage = Map.empty, navigated = []\<rparr>
     = (\<lparr>formData = JObj [(''monthlyIncome'', JStr ''50000'')],
         reportPreference = \<lparr>reportType = Single, investmentType = JStr []\<rparr>,
         reportError = ''Please choose a category for the single-investment report.''\<rparr>,
        \<lparr>localStorage = Map.empty, navigated = []\<rparr>)
   \<and> navigated (snd (handleSubmit
         \<lparr>formData = JObj [(''monthlyIncome'', JStr ''50000'')],
          reportPreference = \<lparr>reportType = Single, investmentType = JStr ''gold''\<rparr>,
          reportError = []\<rparr>
         \<lparr>localStorage = Map.empty, navigated = []\<rparr>))
     = [''/recommendation'']"
  using validation_gate
          [where page = "\<lparr>formData = JObj [(''monthlyIncome'', JStr ''50000'')],
                          reportPreference = \<lparr>reportType = Single, investmentType = JStr []\<rparr>,
                          reportError = []\<rparr>"
             and b = "\<lparr>localStorage = Map.empty, navigated = []\<rparr>" and s = "[]"]
        validation_gate
          [where page = "\<lparr>formData = JObj [(''monthlyIncome'', JStr ''50000'')],
                          reportPreference =
                            \<lparr>reportType = Single, investmentType = JStr ''gold''\<rparr>,
                          reportError = []\<rparr>"
             and b = "\<lparr>localStorage = Map.empty, navigated = []\<rparr>" and s = "''gold''"]
  by (simp add: validate_snd)

section \<open>Synthesized explanations\<close>

lemma narrative_lookup:
  "map_of riskNarratives r
     = (if r = ''Low'' then Some ''prioritize stability, capital protection, and steady income.''
        else if r = ''Medium'' then Some ''balance long-term growth with reasonable stability.''
        else if r = ''High''
        then Some ''maximize long-term growth even if short-term volatility increases.''
        else None)"
  by (simp add: riskNarratives_def)

text \<open>
  Claim C8, as the code has it. Without an explanation from upstream (\<^verbatim>\<open>custom\<close> is
  falsy) and for a risk preference that is not the name of a member inherited from
  \<^verbatim>\<open>Object.prototype\<close>, \<^verbatim>\<open>buildExplanation\<close> returns the category label,
  \<^verbatim>\<open>' are selected to '\<close>, and the narrative of the risk preference: one of three for
  Low, Medium and High, a fourth for every other value. The result is a function of the
  risk preference and the label, and starts with the label.
\<close>

theorem synthesized_explanation:
  "\<not> truthy custom \<and> \<not> inheritedName riskPreference \<longrightarrow>
   buildExplanation F riskPreference categoryLabel custom
     = JStr (categoryLabel @ '' are selected to ''
             @ (if riskPreference = ''Low''
                then ''prioritize stability, capital protection, and steady income.''
                else if riskPreference = ''Medium''
                then ''balance long-term growth with reasonable stability.''
                else if riskPreference = ''High''
                then ''maximize long-term growth even if short-term volatility increases.''
                else ''deliver a balanced mix of growth and stability.''))
   \<and> (\<exists>rest. buildExplanation F riskPreference categoryLabel custom
                = JStr (categoryLabel @ rest))"
  by (simp add: buildExplanation_def narrative_lookup inheritedName_def del: append.simps)

theorem synthesized_explanation_witness:
  "buildExplanation id ''Low'' ''Gold ETFs'' JUndefined
     = JStr ''Gold ETFs are selected to prioritize stability, capital protection, and steady income.''
   \<and> buildExplanation id ''Moderate'' ''Stocks'' JUndefined
     = JStr ''Stocks are selected to deliver a balanced mix of growth and stability.''"
  using synthesized_explanation [of JUndefined "''Low''" id "''Gold ETFs''"]
        synthesized_explanation [of JUndefined "''Moderate''" id "''Stocks''"]
  by (simp add: inheritedName_def objectPrototypeFunctions_def)

text \<open>
  Claim C8, as the specification states it: every unrecognized risk value would get the
  default clause. \<^verbatim>\<open>'__proto__'\<close> does not: the table read finds
  \<^verbatim>\<open>Object.prototype\<close>.
\<close>

theorem inherited_member_counterexample:
  "buildExplanation id ''__proto__'' ''Gold ETFs'' JUndefined
     = JStr ''Gold ETFs are selected to [object Object]''"
  by (simp add: buildExplanation_def narrative_lookup)

section \<open>Single-mode explanations\<close>

lemma extraFragment_pushIfNumber:
  "pushIfNumber N l (getProp extras k) u parts = parts @ extraFragment N extras (k, l, u)"
  by (simp add: pushIfNumber_def extraFragment_def push_def split: jsval.splits)

lemma singleItemParts_extras:
  "singleItemParts N item
     = bindE (if truthy (returns5y item)
              then bindE (toStr N (returns5y item)) (\<lambda>t. Inr [''5Y CAGR '' @ t @ ''%''])
              else if truthy (returns3y item)
              then bindE (toStr N (returns3y item)) (\<lambda>t. Inr [''3Y CAGR '' @ t @ ''%''])
              else Inr [])
         (\<lambda>parts. Inr (parts @ extraFragments N item))"
  by (simp add: singleItemParts_def extraFragments_def extraMetricLabels_def
        extraFragment_pushIfNumber push_def Let_def
        split del: if_split cong: if_cong)

lemma joined: "(if parts \<noteq> [] then JStr (joinWith bulletSeparator parts) else JUndefined) = joinedFragments parts"
  by (simp add: joinedFragments_def bulletSeparator_def)

text \<open>
  Claim C9, as the code has it. The explanation of a top item is built from these
  fragments, in this order: the 5-year return when it is truthy, else the 3-year return
  when it is truthy (never both; a return of 0 or \<^verbatim>\<open>''\<close> counts as absent); then
  yield, expense ratio, consistency, volatility, duration and beta, each only when its
  value in \<^verbatim>\<open>extra_metrics\<close> is a number. The fragments are joined by a space, a
  bullet and a space; without any fragment the explanation is \<^verbatim>\<open>undefined\<close>.
\<close>

theorem single_item_explanation_fragments:
  "(truthy (returns5y item) \<and> toStr N (returns5y item) = Inr t
      \<longrightarrow> buildSingleItemExplanation N item
            = Inr (joinedFragments ((''5Y CAGR '' @ t @ ''%'') # extraFragments N item)))
   \<and> (\<not> truthy (returns5y item) \<and> truthy (returns3y item)
        \<and> toStr N (returns3y item) = Inr t
      \<longrightarrow> buildSingleItemExplanation N item
            = Inr (joinedFragments ((''3Y CAGR '' @ t @ ''%'') # extraFragments N item)))
   \<and> (\<not> truthy (returns5y item) \<and> \<not> truthy (returns3y item)
      \<longrightarrow> buildSingleItemExplanation N item = Inr (joinedFragments (extraFragments N item)))
   \<and> joinedFragments [] = JUndefined
   \<and> joinedFragments (f # fs)
       = JStr (joinWith [CHR 0x20, CHR 0xE2, CHR 0x80, CHR 0xA2, CHR 0x20] (f # fs))
   \<and> extraFragments N item
       = concat (map (\<lambda>m. case getProp (extrasOf item) (fst m) of
                              JNum n \<Rightarrow> [fst (snd m) @ N n @ snd (snd m)]
                            | _ \<Rightarrow> [])
                     [(''yield'', ''Yield '', ''%''),
                      (''expense_ratio'', ''Expense Ratio '', ''%''),
                      (''consistency'', ''Consistency '', ''%''),
                      (''volatility'', ''Volatility '', ''%''),
                      (''duration'', ''Duration '', '' yrs''),
                      (''beta'', ''Beta '', [])])"
proof -
  have a: "truthy (returns5y item) \<and> toStr N (returns5y item) = Inr t
      \<longrightarrow> buildSingleItemExplanation N item
            = Inr (joinedFragments ((''5Y CAGR '' @ t @ ''%'') # extraFragments N item))"
    by (simp add: buildSingleItemExplanation_def singleItemParts_extras bindE_def joined)
  have b: "\<not> truthy (returns5y item) \<and> truthy (returns3y item)
        \<and> toStr N (returns3y item) = Inr t
      \<longrightarrow> buildSingleItemExplanation N item
            = Inr (joinedFragments ((''3Y CAGR '' @ t @ ''%'') # extraFragments N item))"
    by (simp add: buildSingleItemExplanation_def singleItemParts_extras bindE_def joined)
  have c: "\<not> truthy (returns5y item) \<and> \<not> truthy (returns3y item)
      \<longrightarrow> buildSingleItemExplanation N item = Inr (joinedFragments (extraFragments N item))"
    by (simp add: buildSingleItemExplanation_def singleItemParts_extras bindE_def joined)
  have d: "joinedFragments [] = JUndefined"
    and e: "joinedFragments (f # fs)
       = JStr (joinWith [CHR 0x20, CHR 0xE2, CHR 0x80, CHR 0xA2, CHR 0x20] (f # fs))"
    by (simp_all add: joinedFragments_def)
  have g: "extraFragments N item
       = concat (map (\<lambda>m. case getProp (extrasOf item) (fst m) of
                              JNum n \<Rightarrow> [fst (snd m) @ N n @ snd (snd m)]
                            | _ \<Rightarrow> [])
                     [(''yield'', ''Yield '', ''%''),
                      (''expense_ratio'', ''Expense Ratio '', ''%''),
                      (''consistency'', ''Consistency '', ''%''),
                      (''volatility'', ''Volatility '', ''%''),
                      (''duration'', ''Duration '', '' yrs''),
                      (''beta'', ''Beta '', [])])"
    unfolding extraFragments_def extraMetricLabels_def extraFragment_def ..
  show ?thesis
    by (intro conjI a b c d e g)
qed

theorem single_item_explanation_fragments_witness:
  "buildSingleItemExplanation (\<lambda>n. ''7'')
     (JObj [(''return_5yr'', JNum (Num 7)), (''3y_return'', JNum (Num 7)),
            (''extra_metrics'', JObj [(''beta'', JNum (Num 7)), (''yield'', JStr ''7'')])])
     = Inr (JStr (''5Y CAGR 7%'' @ [CHR 0x20, CHR 0xE2, CHR 0x80, CHR 0xA2, CHR 0x20] @ ''Beta 7''))
   \<and> buildSingleItemExplanation (\<lambda>n. ''7'') (JObj [(''name'', JStr ''Fund'')]) = Inr JUndefined"
  using single_item_explanation_fragments
          [of "JObj [(''return_5yr'', JNum (Num 7)), (''3y_return'', JNum (Num 7)),
                     (''extra_metrics'',
                      JObj [(''beta'', JNum (Num 7)), (''yield'', JStr ''7'')])]"
              "\<lambda>n. ''7''" "''7''"]
        single_item_explanation_fragments
          [of "JObj [(''name'', JStr ''Fund'')]" "\<lambda>n. ''7''"]
  by (simp add: returns5y_def returns3y_def extrasOf_def optProp_def nullishOr_def
        logicalOr_def)

text \<open>
  Claim C9, as the specification states it: the 5-year return would be preferred over
  the 3-year return. A 5-year return of 0 is passed over for the 3-year return.
\<close>

theorem zero_five_year_return_counterexample:
  "buildSingleItemExplanation (\<lambda>n. ''8'')
     (JObj [(''5y_return'', JNum (Num 0)), (''3y_return'', JNum (Num 8))])
     = Inr (JStr ''3Y CAGR 8%'')"
  by (simp add: buildSingleItemExplanation_def singleItemParts_extras bindE_def
        extraFragments_def extraMetricLabels_def extraFragment_def
        returns5y_def returns3y_def extrasOf_def optProp_def nullishOr_def logicalOr_def
        bulletSeparator_def)

section \<open>Metric values\<close>

lemma entryStrings_outcome:
  "entryStrings N kvs
     = (if list_ex (\<lambda>kv. toPrimitiveFails (snd kv)) kvs then Inl TypeError
        else Inr (map (\<lambda>kv. fst kv @ '': '' @ stringOf N (snd kv)) kvs))"
proof (induction kvs)
  case Nil
  then show ?case by simp
next
  case (Cons kv kvs)
  show ?case
  proof (cases "toPrimitiveFails (snd kv)")
    case True
    then have "toStr N (snd kv) = Inl TypeError"
      by (simp add: toStr_throws)
    with True show ?thesis by (simp add: bindE_def)
  next
    case False
    from toStr_stringOf [OF this] Cons.IH False show ?thesis
      by (simp add: bindE_def)
  qed
qed

lemma list_ex_zip_snd:
  "length ks = length xs \<Longrightarrow> list_ex (\<lambda>kv. P (snd kv)) (zip ks xs) = list_ex P xs"
  by (induction ks xs rule: list_induct2) simp_all

lemma format_object:
  "formatSingleMetricValue N L (JObj kvs)
     = (if entryFails (JObj kvs) then Inl TypeError
        else Inr (JStr (joinWith '', ''
                          (map (\<lambda>kv. fst kv @ '': '' @ stringOf N (snd kv)) kvs))))"
  by (simp add: formatSingleMetricValue_def bindE_def entryStrings_outcome entryFails_def)

lemma format_array:
  "formatSingleMetricValue N L (JArr xs)
     = (if entryFails (JArr xs) then Inl TypeError
        else Inr (JStr (joinWith '', ''
                          (map (\<lambda>kv. fst kv @ '': '' @ stringOf N (snd kv))
                               (zip (map showNat [0..<length xs]) xs)))))"
  by (simp add: formatSingleMetricValue_def bindE_def entryStrings_outcome entryFails_def
        list_ex_zip_snd)

text \<open>
  Claim C10, as the code has it. \<^verbatim>\<open>formatSingleMetricValue\<close> gives \<^verbatim>\<open>'NA'\<close> for
  \<^verbatim>\<open>null\<close> and \<^verbatim>\<open>undefined\<close>; this is tested first, and it has to be, since
  \<^verbatim>\<open>typeof null\<close> is \<^verbatim>\<open>'object'\<close> and \<^verbatim>\<open>Object.entries(null)\<close> throws. A number is
  formatted by \<^verbatim>\<open>toLocaleString\<close> for \<^verbatim>\<open>en-IN\<close> with at most 2 fraction digits, a
  string or a boolean is returned as it is, and an object (and an array, under its
  indices) becomes its \<^verbatim>\<open>key: value\<close> pairs joined by \<^verbatim>\<open>', '\<close>. The function returns
  exactly when no entry of the object or array has a value whose conversion to a string
  throws.
\<close>

theorem format_single_metric_value:
  "formatSingleMetricValue N L JNull = Inr (JStr ''NA'')
   \<and> formatSingleMetricValue N L JUndefined = Inr (JStr ''NA'')
   \<and> formatSingleMetricValue N L (JNum n) = Inr (JStr (L n ''en-IN'' 2))
   \<and> formatSingleMetricValue N L (JStr s) = Inr (JStr s)
   \<and> formatSingleMetricValue N L (JBool b) = Inr (JBool b)
   \<and> (\<not> entryFails (JObj kvs)
      \<longrightarrow> formatSingleMetricValue N L (JObj kvs)
            = Inr (JStr (joinWith '', ''
                           (map (\<lambda>kv. fst kv @ '': '' @ stringOf N (snd kv)) kvs))))
   \<and> (\<not> entryFails (JArr xs)
      \<longrightarrow> formatSingleMetricValue N L (JArr xs)
            = Inr (JStr (joinWith '', ''
                           (map (\<lambda>kv. fst kv @ '': '' @ stringOf N (snd kv))
                                (zip (map showNat [0..<length xs]) xs)))))
   \<and> (\<exists>r. formatSingleMetricValue N L v = Inr r) = (\<not> entryFails v)
   \<and> typeofJs JNull = ''object''
   \<and> objectEntries JNull = Inl TypeError"
proof -
  have t: "(\<exists>r. formatSingleMetricValue N L v = Inr r) = (\<not> entryFails v)"
  proof (cases v)
    case (JArr ys)
    then show ?thesis by (simp add: format_array)
  next
    case (JObj ps)
    then show ?thesis by (simp add: format_object)
  qed (simp_all add: formatSingleMetricValue_def entryFails_def)
  show ?thesis
    using t by (simp add: format_object format_array)
       (simp add: formatSingleMetricValue_def)
qed

theorem format_single_metric_value_witness:
  "formatSingleMetricValue (\<lambda>n. ''1'') (\<lambda>n l d. ''1'')
       (JObj [(''min'', JNum (Num 1)), (''max'', JNull)])
     = Inr (JStr ''min: 1, max: null'')"
  using format_single_metric_value
          [where N = "\<lambda>n. ''1''" and L = "\<lambda>n l d. ''1''"
             and kvs = "[(''min'', JNum (Num 1)), (''max'', JNull)]"]
  by (simp add: entryFails_def stringOf_def)

text \<open>
  Claim C10, as the specification states it: the formatter would throw for no input.
  It throws for a metric one of whose entries is an object with a key \<^verbatim>\<open>toString\<close>.
\<close>

theorem unconvertible_entry_counterexample:
  "formatSingleMetricValue (\<lambda>n. ''1'') (\<lambda>n l d. ''1'')
       (JObj [(''m'', JObj [(''toString'', JNull)])])
     = Inl TypeError"
  by (simp add: formatSingleMetricValue_def bindE_def)

end
